theory Spec2Isabelle
  imports Complex_Main
begin

section \<open>Data model\<close>

text \<open>
  The polygon algorithms of h3 (\<^verbatim>\<open>polygon.c\<close>, \<^verbatim>\<open>polygonAlgos.h\<close>) work on C
  \<^verbatim>\<open>double\<close> values, IEEE 754 binary64. A finite \<^verbatim>\<open>double\<close> is modelled as the
  \<^typ>\<open>real\<close> it denotes. Comparisons, unary minus, \<^verbatim>\<open>fmin\<close>, \<^verbatim>\<open>fmax\<close> and \<^verbatim>\<open>fabs\<close>
  are exact in binary64 and are the real ones. Each \<^verbatim>\<open>+\<close>, \<^verbatim>\<open>-\<close>, \<^verbatim>\<open>*\<close> and \<^verbatim>\<open>/\<close>
  of the source rounds its exact result to the nearest binary64 value, ties to
  the even significand: \<open>dadd\<close>, \<open>dsub\<close>, \<open>dmul\<close> and \<open>ddiv\<close> below, each
  expression evaluated in binary64 as written. Results beyond the finite range
  (infinity) and NaN are not modelled: a result above \<^verbatim>\<open>DBL_MAX\<close> is rounded as if
  the exponent had no upper end, and \<open>ddiv a 0\<close> is \<open>0\<close>. With latitudes in
  \<open>[-\<pi>/2, \<pi>/2]\<close> and longitudes in \<open>[-\<pi>, \<pi>]\<close> the source produces neither: its one
  division, in \<^verbatim>\<open>pointInside\<close>, has a zero divisor only if the nudge of the latitude
  by \<^verbatim>\<open>DBL_EPSILON\<close> is lost, at a magnitude of 2 or more.
\<close>

type_synonym double = real

text \<open>The integer nearest to \<open>y\<close>, the even one of the two when \<open>y\<close> lies half way.\<close>

definition round_even :: "real \<Rightarrow> int" where
  "round_even y =
     (let f = \<lfloor>y\<rfloor>; d = y - of_int f
      in if d < 1 / 2 then f else if d > 1 / 2 then f + 1 else if even f then f else f + 1)"

text \<open>The binade of \<open>x \<noteq> 0\<close> is the \<open>e\<close> with \<open>2\<^sup>e \<le> \<bar>x\<bar> < 2\<^sup>e\<^sup>+\<^sup>1\<close>. A binary64 value
  has a significand of 53 bits, and its exponent is at least \<open>-1022\<close> (below
  \<open>2\<^sup>-\<^sup>1\<^sup>0\<^sup>2\<^sup>2\<close> the values are subnormal): \<open>ulp x\<close> is the distance between two
  neighbouring binary64 values in the binade of \<open>x\<close>.\<close>

definition binade :: "real \<Rightarrow> int" where
  "binade x = \<lfloor>log 2 \<bar>x\<bar>\<rfloor>"

definition ulp :: "real \<Rightarrow> real" where
  "ulp x = 2 powi (max (binade x) (- 1022) - 52)"

text \<open>Rounding to binary64: the multiple of \<open>ulp x\<close> nearest to \<open>x\<close>.\<close>

definition rnd :: "real \<Rightarrow> double" where
  "rnd x = (if x = 0 then 0 else of_int (round_even (x / ulp x)) * ulp x)"

definition dadd :: "double \<Rightarrow> double \<Rightarrow> double" where
  "dadd a b = rnd (a + b)"

definition dsub :: "double \<Rightarrow> double \<Rightarrow> double" where
  "dsub a b = rnd (a - b)"

definition dmul :: "double \<Rightarrow> double \<Rightarrow> double" where
  "dmul a b = rnd (a * b)"

definition ddiv :: "double \<Rightarrow> double \<Rightarrow> double" where
  "ddiv a b = rnd (a / b)"

text \<open>\<^verbatim>\<open>LatLng\<close>: latitude and longitude in radians.\<close>

record LatLng =
  lat :: double
  lng :: double

text \<open>\<^verbatim>\<open>BBox\<close>: the fields in the order of the initialisers \<^verbatim>\<open>{1.1, 0.7, 0.7, 0.2}\<close> of
  \<^verbatim>\<open>testPolygon.c\<close> (north, south, east, west).\<close>

record BBox =
  north :: double
  south :: double
  east :: double
  west :: double

text \<open>\<^verbatim>\<open>Vec2d\<close> has the C fields \<^verbatim>\<open>x\<close> and \<^verbatim>\<open>y\<close>; they are called \<open>vx\<close> and
  \<open>vy\<close> here to keep \<open>x\<close> and \<open>y\<close> free as variable names.\<close>

record Vec2d =
  vx :: double
  vy :: double

text \<open>\<^verbatim>\<open>GeoLoop\<close> is a vertex array with its count \<^verbatim>\<open>int numVerts\<close>; the array is the
  list and \<^verbatim>\<open>numVerts\<close> its length (a count is never negative), so every index
  below \<^verbatim>\<open>numVerts\<close> is in range.\<close>

record GeoLoop =
  verts :: "LatLng list"

definition numVerts :: "GeoLoop \<Rightarrow> nat" where
  "numVerts loop = length (verts loop)"

text \<open>\<^verbatim>\<open>GeoPolygon\<close>: the outer loop and the array of holes, \<^verbatim>\<open>numHoles\<close> being the
  length of that array.\<close>

record GeoPolygon =
  geoloop :: GeoLoop
  holes :: "GeoLoop list"

definition numHoles :: "GeoPolygon \<Rightarrow> nat" where
  "numHoles p = length (holes p)"

section \<open>Constants and helpers that the source includes from other files\<close>

text \<open>Modelled from the spec: \<^verbatim>\<open>M_PI\<close> (\<^verbatim>\<open>constants.h\<close> is not among the sources);
  the spec speaks of a longitude delta that exceeds \<open>\<pi>\<close>. As a \<^verbatim>\<open>double\<close> it is the
  binary64 value nearest to \<open>\<pi>\<close>, \<^verbatim>\<open>0x400921FB54442D18\<close>, which is
  \<open>884279719003555 / 2\<^sup>4\<^sup>8 = 3.141592653589793115...\<close>\<close>

definition M_PI :: double where
  "M_PI = 884279719003555 / 2 ^ 48"

text \<open>Modelled from the spec: \<^verbatim>\<open>M_2PI\<close> (\<^verbatim>\<open>constants.h\<close> is not among the sources);
  the spec shifts negative longitudes by \<open>+2\<pi>\<close>. The source casts it to
  \<^verbatim>\<open>double\<close>: the binary64 value nearest to \<open>2\<pi>\<close>, twice that of \<open>\<pi>\<close>.\<close>

definition M_2PI :: double where
  "M_2PI = 884279719003555 / 2 ^ 47"

text \<open>\<^verbatim>\<open>DBL_EPSILON\<close> and \<^verbatim>\<open>DBL_MAX\<close> of \<^verbatim>\<open>float.h\<close> for IEEE 754 binary64.\<close>

definition DBL_EPSILON :: double where
  "DBL_EPSILON = 1 / 2 ^ 52"

definition DBL_MAX :: double where
  "DBL_MAX = (2 - 1 / 2 ^ 52) * 2 ^ 1023"

text \<open>Modelled from the spec: \<^verbatim>\<open>bboxIsTransmeridian\<close> (\<^verbatim>\<open>bbox.c\<close> is not among the
  sources); a box whose west exceeds its east wraps through the antimeridian.\<close>

definition bboxIsTransmeridian :: "BBox \<Rightarrow> bool" where
  "bboxIsTransmeridian bbox = (east bbox < west bbox)"

text \<open>Modelled from the spec: \<^verbatim>\<open>bboxContains\<close> (\<^verbatim>\<open>bbox.c\<close> is not among the sources);
  the point-containment query of the bounding-box utility. The bounds are
  inclusive (the spec counts the corner \<open>(0, 1)\<close> of the unit square, which lies
  on the box, as contained), and a transmeridian box holds the longitudes from
  its west bound up and from its east bound down.\<close>

definition bboxContains :: "BBox \<Rightarrow> LatLng \<Rightarrow> bool" where
  "bboxContains bbox point =
     (lat point \<ge> south bbox \<and> lat point \<le> north bbox \<and>
      (if bboxIsTransmeridian bbox
       then (lng point \<ge> west bbox \<or> lng point \<le> east bbox)
       else (lng point \<ge> west bbox \<and> lng point \<le> east bbox)))"

text \<open>Modelled from the spec: \<^verbatim>\<open>geoAlmostEqualThreshold\<close> (\<^verbatim>\<open>latLng.c\<close> is not among
  the sources); two coordinates coincide up to a threshold when both of their
  components differ by less than it.\<close>

definition geoAlmostEqualThreshold :: "LatLng \<Rightarrow> LatLng \<Rightarrow> double \<Rightarrow> bool" where
  "geoAlmostEqualThreshold p1 p2 threshold =
     (\<bar>dsub (lat p1) (lat p2)\<bar> < threshold \<and> \<bar>dsub (lng p1) (lng p2)\<bar> < threshold)"

text \<open>Modelled from the spec: \<^verbatim>\<open>_v2dOrient\<close> (\<^verbatim>\<open>vec2d.c\<close> is not among the sources);
  the sign of the cross product of \<open>p1 - p0\<close> and \<open>p2 - p0\<close>, which tells on which
  side of the directed segment \<open>p0 p1\<close> the point \<open>p2\<close> lies (\<open>0\<close>: on its line).\<close>

definition v2dOrient :: "Vec2d \<Rightarrow> Vec2d \<Rightarrow> Vec2d \<Rightarrow> int" where
  "v2dOrient p0 p1 p2 =
     (let d = dsub (dmul (dsub (vx p1) (vx p0)) (dsub (vy p2) (vy p0)))
                   (dmul (dsub (vy p1) (vy p0)) (dsub (vx p2) (vx p0)))
      in if d > 0 then 1 else if d < 0 then - 1 else 0)"

text \<open>Modelled from the spec: \<^verbatim>\<open>IS_EMPTY_GEOFENCE\<close> (\<^verbatim>\<open>polygon.h\<close> is not among the
  sources); a loop of 0 vertices is empty.\<close>

definition IS_EMPTY :: "GeoLoop \<Rightarrow> bool" where
  "IS_EMPTY loop = (numVerts loop = 0)"

text \<open>Modelled from the spec: \<^verbatim>\<open>INIT_ITERATION_GEOFENCE\<close> and \<^verbatim>\<open>ITERATE_GEOFENCE\<close>
  (\<^verbatim>\<open>polygon.h\<close> is not among the sources). A loop produces its edges as
  consecutive coordinate pairs, the last vertex connecting back to the first;
  a loop of 1 vertex is degenerate and has no edges, the empty loop has none.
  \<open>ITERATE loop\<close> is the sequence of pairs \<open>(a, b)\<close> that the successive
  \<^verbatim>\<open>ITERATE(loop, a, b)\<close> of a \<^verbatim>\<open>while (true)\<close> loop deliver before the
  \<^verbatim>\<open>break\<close>.\<close>

definition ITERATE :: "GeoLoop \<Rightarrow> (LatLng \<times> LatLng) list" where
  "ITERATE loop =
     (if numVerts loop < 2 then []
      else map (\<lambda>i. (verts loop ! i, verts loop ! ((i + 1) mod numVerts loop)))
             [0 ..< numVerts loop])"

section \<open>Loop algorithms (\<^verbatim>\<open>polygonAlgos.h\<close>, instantiated for \<^verbatim>\<open>GeoLoop\<close>)\<close>

text \<open>The macro \<^verbatim>\<open>NORMALIZE_LNG(lng, isTransmeridian)\<close>.\<close>

definition NORMALIZE_LNG :: "double \<Rightarrow> bool \<Rightarrow> double" where
  "NORMALIZE_LNG l isTransmeridian =
     (if isTransmeridian \<and> l < 0 then dadd l M_2PI else l)"

subsection \<open>\<^verbatim>\<open>pointInsideGeoLoop\<close>\<close>

text \<open>One pass through the body of the \<^verbatim>\<open>while\<close> loop of \<^verbatim>\<open>pointInside\<close>, for
  the loop edge \<open>(a0, b0)\<close>. The locals \<^verbatim>\<open>lat\<close>, \<^verbatim>\<open>lng\<close> and \<^verbatim>\<open>contains\<close> are the
  state, given and returned as a triple: a nudge of \<^verbatim>\<open>lat\<close> or \<^verbatim>\<open>lng\<close> stays in
  force for the later edges.\<close>

definition pointInside_step ::
  "bool \<Rightarrow> LatLng \<Rightarrow> LatLng \<Rightarrow> double \<times> double \<times> bool \<Rightarrow> double \<times> double \<times> bool" where
  "pointInside_step isTransmeridian a0 b0 st =
     (let plat = fst st; plng = fst (snd st); contains = snd (snd st);
          a = (if lat a0 > lat b0 then b0 else a0);
          b = (if lat a0 > lat b0 then a0 else b0);
          plat1 = (if plat = lat a \<or> plat = lat b then dadd plat DBL_EPSILON else plat)
      in if plat1 < lat a \<or> plat1 > lat b
         then (plat1, plng, contains)
         else
           let aLng = NORMALIZE_LNG (lng a) isTransmeridian;
               bLng = NORMALIZE_LNG (lng b) isTransmeridian;
               plng1 = (if aLng = plng \<or> bLng = plng then dsub plng DBL_EPSILON else plng);
               ratio = ddiv (dsub plat1 (lat a)) (dsub (lat b) (lat a));
               testLng = NORMALIZE_LNG (dadd aLng (dmul (dsub bLng aLng) ratio)) isTransmeridian
           in (plat1, plng1, if testLng > plng1 then \<not> contains else contains))"

fun pointInside_loop ::
  "bool \<Rightarrow> (LatLng \<times> LatLng) list \<Rightarrow> double \<times> double \<times> bool \<Rightarrow> bool" where
  "pointInside_loop isTransmeridian [] st = snd (snd st)"
| "pointInside_loop isTransmeridian (e # es) st =
     pointInside_loop isTransmeridian es (pointInside_step isTransmeridian (fst e) (snd e) st)"

definition pointInsideGeoLoop :: "GeoLoop \<Rightarrow> BBox \<Rightarrow> LatLng \<Rightarrow> bool" where
  "pointInsideGeoLoop loop bbox coord =
     (if \<not> bboxContains bbox coord then False
      else
        let isTransmeridian = bboxIsTransmeridian bbox
        in pointInside_loop isTransmeridian (ITERATE loop)
             (lat coord, NORMALIZE_LNG (lng coord) isTransmeridian, False))"

subsection \<open>\<^verbatim>\<open>segmentIntersectsGeoLoop\<close>\<close>

text \<open>One pass through the body of the \<^verbatim>\<open>while\<close> loop of \<^verbatim>\<open>segmentIntersects\<close>,
  for the loop edge \<open>(a, b)\<close>. The body ends in one of three ways: a
  \<^verbatim>\<open>return true\<close> (\<open>Hit\<close>), the \<^verbatim>\<open>continue\<close> of the box test (\<open>Skipped\<close>), or
  its last line, with the orientation \<^verbatim>\<open>ob\<close> to be reused (\<open>Checked ob\<close>).\<close>

datatype seg_step = Hit | Skipped | Checked int

definition segmentIntersects_step ::
  "bool \<Rightarrow> LatLng \<Rightarrow> LatLng \<Rightarrow> LatLng \<Rightarrow> LatLng \<Rightarrow> int \<Rightarrow> bool \<Rightarrow> bool \<Rightarrow> seg_step" where
  "segmentIntersects_step isTransmeridian p0 p1 a b oa first reused =
     (let v0 = \<lparr>vx = NORMALIZE_LNG (lng p0) isTransmeridian, vy = lat p0\<rparr>;
          v1 = \<lparr>vx = NORMALIZE_LNG (lng p1) isTransmeridian, vy = lat p1\<rparr>;
          xmin = min (vx v0) (vx v1);
          xmax = max (vx v0) (vx v1);
          ymin = min (vy v0) (vy v1);
          ymax = max (vy v0) (vy v1);
          va = \<lparr>vx = NORMALIZE_LNG (lng a) isTransmeridian, vy = lat a\<rparr>;
          vb = \<lparr>vx = NORMALIZE_LNG (lng b) isTransmeridian, vy = lat b\<rparr>;
          xminAb = min (vx va) (vx vb);
          xmaxAb = max (vx va) (vx vb);
          yminAb = min (vy va) (vy vb);
          ymaxAb = max (vy va) (vy vb)
      in if xmax < xminAb \<or> xmaxAb < xmin \<or> ymax < yminAb \<or> ymaxAb < ymin
         then Skipped
         else if first \<and> (geoAlmostEqualThreshold p0 a DBL_EPSILON \<or>
                           geoAlmostEqualThreshold p0 b DBL_EPSILON)
         then Hit
         else if geoAlmostEqualThreshold p1 a DBL_EPSILON \<or>
                 geoAlmostEqualThreshold p1 b DBL_EPSILON
         then Hit
         else
           let oa1 = (if \<not> reused then v2dOrient v0 v1 va else oa);
               ob = v2dOrient v0 v1 vb;
               o0 = v2dOrient va vb v0;
               o1 = v2dOrient va vb v1
           in if \<not> reused \<and> oa1 = 0 \<and> xmin \<le> vx va \<and> vx va \<le> xmax \<and>
                 ymin \<le> vy va \<and> vy va \<le> ymax
              then Hit
              else if ob = 0 \<and> xmin \<le> vx vb \<and> vx vb \<le> xmax \<and>
                      ymin \<le> vy vb \<and> vy vb \<le> ymax
              then Hit
              else if o0 = 0 \<and> xminAb \<le> vx v0 \<and> vx v0 \<le> xmaxAb \<and>
                      yminAb \<le> vy v0 \<and> vy v0 \<le> ymaxAb
              then Hit
              else if o1 = 0 \<and> xminAb \<le> vx v1 \<and> vx v1 \<le> xmaxAb \<and>
                      yminAb \<le> vy v1 \<and> vy v1 \<le> ymaxAb
              then Hit
              else if oa1 * ob = - 1 \<and> o0 * o1 = - 1
              then Hit
              else Checked ob)"

text \<open>The \<^verbatim>\<open>while\<close> loop over the remaining edges; the state is \<^verbatim>\<open>oa\<close>,
  \<^verbatim>\<open>first\<close> and \<^verbatim>\<open>reused\<close>. As in the source, \<^verbatim>\<open>first\<close> is cleared only when
  an edge is skipped by the box test.\<close>

fun segmentIntersects_loop ::
  "bool \<Rightarrow> LatLng \<Rightarrow> LatLng \<Rightarrow> (LatLng \<times> LatLng) list \<Rightarrow> int \<Rightarrow> bool \<Rightarrow> bool \<Rightarrow> bool" where
  "segmentIntersects_loop isTransmeridian p0 p1 [] oa first reused = False"
| "segmentIntersects_loop isTransmeridian p0 p1 (e # es) oa first reused =
     (case segmentIntersects_step isTransmeridian p0 p1 (fst e) (snd e) oa first reused of
        Hit \<Rightarrow> True
      | Skipped \<Rightarrow> segmentIntersects_loop isTransmeridian p0 p1 es oa False False
      | Checked ob \<Rightarrow> segmentIntersects_loop isTransmeridian p0 p1 es ob first True)"

definition segmentIntersectsGeoLoop :: "GeoLoop \<Rightarrow> BBox \<Rightarrow> LatLng \<Rightarrow> LatLng \<Rightarrow> bool" where
  "segmentIntersectsGeoLoop loop bbox p0 p1 =
     (if IS_EMPTY loop then False
      else if (lat p0 > north bbox \<and> lat p1 > north bbox) \<or>
              (lng p0 > east bbox \<and> lng p1 > east bbox) \<or>
              (lat p0 < south bbox \<and> lat p1 < south bbox) \<or>
              (lng p0 < west bbox \<and> lng p1 < west bbox)
      then False
      else
        let isTransmeridian = bboxIsTransmeridian bbox \<or> \<bar>dsub (lng p0) (lng p1)\<bar> > M_PI
        in segmentIntersects_loop isTransmeridian p0 p1 (ITERATE loop) 0 True False)"

subsection \<open>\<^verbatim>\<open>bboxFromGeoLoop\<close>\<close>

text \<open>The locals of \<^verbatim>\<open>bboxFrom\<close> that the \<^verbatim>\<open>while\<close> loop updates: the output box
  \<^verbatim>\<open>*bbox\<close> and \<^verbatim>\<open>minPosLng\<close>, \<^verbatim>\<open>maxNegLng\<close>, \<^verbatim>\<open>isTransmeridian\<close> (the fields carry
  the prefix \<open>st_\<close>).\<close>

record bboxFrom_state =
  st_bbox :: BBox
  st_minPosLng :: double
  st_maxNegLng :: double
  st_isTransmeridian :: bool

definition bboxFrom_init :: bboxFrom_state where
  "bboxFrom_init =
     \<lparr>st_bbox = \<lparr>north = - DBL_MAX, south = DBL_MAX, east = - DBL_MAX, west = DBL_MAX\<rparr>,
      st_minPosLng = DBL_MAX, st_maxNegLng = - DBL_MAX, st_isTransmeridian = False\<rparr>"

definition bboxFrom_step :: "LatLng \<Rightarrow> LatLng \<Rightarrow> bboxFrom_state \<Rightarrow> bboxFrom_state" where
  "bboxFrom_step coord next st =
     (let lt = lat coord; lg = lng coord; bb = st_bbox st
      in \<lparr>st_bbox = \<lparr>north = (if lt > north bb then lt else north bb),
                   south = (if lt < south bb then lt else south bb),
                   east = (if lg > east bb then lg else east bb),
                   west = (if lg < west bb then lg else west bb)\<rparr>,
          st_minPosLng = (if lg > 0 \<and> lg < st_minPosLng st then lg else st_minPosLng st),
          st_maxNegLng = (if lg < 0 \<and> lg > st_maxNegLng st then lg else st_maxNegLng st),
          st_isTransmeridian =
            (if \<bar>dsub lg (lng next)\<bar> > M_PI then True else st_isTransmeridian st)\<rparr>)"

fun bboxFrom_loop :: "(LatLng \<times> LatLng) list \<Rightarrow> bboxFrom_state \<Rightarrow> bboxFrom_state" where
  "bboxFrom_loop [] st = st"
| "bboxFrom_loop (e # es) st = bboxFrom_loop es (bboxFrom_step (fst e) (snd e) st)"

definition bboxFromGeoLoop :: "GeoLoop \<Rightarrow> BBox" where
  "bboxFromGeoLoop loop =
     (if IS_EMPTY loop then \<lparr>north = 0, south = 0, east = 0, west = 0\<rparr>
      else
        let st = bboxFrom_loop (ITERATE loop) bboxFrom_init
        in if st_isTransmeridian st
           then (st_bbox st)\<lparr>east := st_maxNegLng st, west := st_minPosLng st\<rparr>
           else st_bbox st)"

subsection \<open>\<^verbatim>\<open>isClockwiseGeoLoop\<close>\<close>




section \<open>Polygon algorithms (\<^verbatim>\<open>polygon.c\<close>)\<close>

definition bboxesFromGeoPolygon :: "GeoPolygon \<Rightarrow> BBox list" where
  "bboxesFromGeoPolygon polygon =
     bboxFromGeoLoop (geoloop polygon) # map bboxFromGeoLoop (holes polygon)"

subsection \<open>\<^verbatim>\<open>pointInsidePolygon\<close>\<close>

text \<open>The \<^verbatim>\<open>for\<close> loop over the holes, from index \<open>i\<close> on: \<open>True\<close> when it leaves
  through its \<^verbatim>\<open>return false\<close>, \<open>False\<close> when it runs to its end.\<close>

function pointInsidePolygon_holes :: "GeoPolygon \<Rightarrow> BBox list \<Rightarrow> LatLng \<Rightarrow> nat \<Rightarrow> bool" where
  "pointInsidePolygon_holes geoPolygon bboxes coord i =
     (if i < numHoles geoPolygon
      then (if pointInsideGeoLoop (holes geoPolygon ! i) (bboxes ! (i + 1)) coord then True
            else pointInsidePolygon_holes geoPolygon bboxes coord (i + 1))
      else False)"
  by pat_completeness auto
termination
  by (relation "measure (\<lambda>(geoPolygon, bboxes, coord, i). numHoles geoPolygon - i)") auto

definition pointInsidePolygon :: "GeoPolygon \<Rightarrow> BBox list \<Rightarrow> LatLng \<Rightarrow> bool" where
  "pointInsidePolygon geoPolygon bboxes coord =
     (let contains = pointInsideGeoLoop (geoloop geoPolygon) (bboxes ! 0) coord
      in if contains \<and> numHoles geoPolygon > 0 \<and>
            pointInsidePolygon_holes geoPolygon bboxes coord 0
         then False
         else contains)"

subsection \<open>\<^verbatim>\<open>geoLoopInsidePolygon\<close>\<close>

text \<open>Each \<^verbatim>\<open>for\<close> loop of \<^verbatim>\<open>geoLoopInsidePolygon\<close> is a function of its index that is
  \<open>True\<close> when the loop leaves through its \<^verbatim>\<open>return false\<close> and \<open>False\<close> when it
  runs to its end. First the loop over the vertices of the candidate.\<close>

function geoLoopInsidePolygon_verts :: "GeoPolygon \<Rightarrow> BBox list \<Rightarrow> GeoLoop \<Rightarrow> nat \<Rightarrow> bool" where
  "geoLoopInsidePolygon_verts geoPolygon bboxes loop i =
     (if i < numVerts loop
      then (if \<not> pointInsidePolygon geoPolygon bboxes (verts loop ! i) then True
            else geoLoopInsidePolygon_verts geoPolygon bboxes loop (i + 1))
      else False)"
  by pat_completeness auto
termination
  by (relation "measure (\<lambda>(geoPolygon, bboxes, loop, i). numVerts loop - i)") auto

text \<open>The loop over the vertices of one hole, and the loop over the holes around it.\<close>

function geoLoopInsidePolygon_holeVerts :: "GeoLoop \<Rightarrow> BBox \<Rightarrow> GeoLoop \<Rightarrow> nat \<Rightarrow> bool" where
  "geoLoopInsidePolygon_holeVerts loop loopBbox hole j =
     (if j < numVerts hole
      then (if pointInsideGeoLoop loop loopBbox (verts hole ! j) then True
            else geoLoopInsidePolygon_holeVerts loop loopBbox hole (j + 1))
      else False)"
  by pat_completeness auto
termination
  by (relation "measure (\<lambda>(loop, loopBbox, hole, j). numVerts hole - j)") auto

function geoLoopInsidePolygon_holes :: "GeoPolygon \<Rightarrow> GeoLoop \<Rightarrow> BBox \<Rightarrow> nat \<Rightarrow> bool" where
  "geoLoopInsidePolygon_holes geoPolygon loop loopBbox i =
     (if i < numHoles geoPolygon
      then (if geoLoopInsidePolygon_holeVerts loop loopBbox (holes geoPolygon ! i) 0 then True
            else geoLoopInsidePolygon_holes geoPolygon loop loopBbox (i + 1))
      else False)"
  by pat_completeness auto
termination
  by (relation "measure (\<lambda>(geoPolygon, loop, loopBbox, i). numHoles geoPolygon - i)") auto

text \<open>The loop over the holes for one segment \<open>p1 p2\<close> of the candidate, and the
  loop over the segments around it.\<close>

function geoLoopInsidePolygon_segHoles ::
  "GeoPolygon \<Rightarrow> BBox list \<Rightarrow> LatLng \<Rightarrow> LatLng \<Rightarrow> nat \<Rightarrow> bool" where
  "geoLoopInsidePolygon_segHoles geoPolygon bboxes p1 p2 j =
     (if j < numHoles geoPolygon
      then (if segmentIntersectsGeoLoop (holes geoPolygon ! j) (bboxes ! (j + 1)) p1 p2 then True
            else geoLoopInsidePolygon_segHoles geoPolygon bboxes p1 p2 (j + 1))
      else False)"
  by pat_completeness auto
termination
  by (relation "measure (\<lambda>(geoPolygon, bboxes, p1, p2, j). numHoles geoPolygon - j)") auto

function geoLoopInsidePolygon_segs :: "GeoPolygon \<Rightarrow> BBox list \<Rightarrow> GeoLoop \<Rightarrow> nat \<Rightarrow> bool" where
  "geoLoopInsidePolygon_segs geoPolygon bboxes loop i =
     (if i < numVerts loop
      then
        (let p1 = verts loop ! i;
             p2 = verts loop ! ((i + 1) mod numVerts loop)
         in if segmentIntersectsGeoLoop (geoloop geoPolygon) (bboxes ! 0) p1 p2 then True
            else if geoLoopInsidePolygon_segHoles geoPolygon bboxes p1 p2 0 then True
            else geoLoopInsidePolygon_segs geoPolygon bboxes loop (i + 1))
      else False)"
  by pat_completeness auto
termination
  by (relation "measure (\<lambda>(geoPolygon, bboxes, loop, i). numVerts loop - i)") auto

definition geoLoopInsidePolygon :: "GeoPolygon \<Rightarrow> BBox list \<Rightarrow> GeoLoop \<Rightarrow> bool" where
  "geoLoopInsidePolygon geoPolygon bboxes loop =
     (if geoLoopInsidePolygon_verts geoPolygon bboxes loop 0 then False
      else if numVerts loop < 2 then numVerts loop \<noteq> 0
      else if numVerts loop > 2 \<and> numHoles geoPolygon > 0 \<and>
              geoLoopInsidePolygon_holes geoPolygon loop (bboxFromGeoLoop loop) 0
      then False
      else if geoLoopInsidePolygon_segs geoPolygon bboxes loop 0 then False
      else True)"

subsection \<open>\<^verbatim>\<open>geoLoopIntersectsPolygon\<close>\<close>

text \<open>The inner \<^verbatim>\<open>for\<close> loop over the holes, for one vertex \<open>coord\<close> of the
  candidate that the outer loop contains. It ends in one of three ways: the
  \<^verbatim>\<open>return true\<close> (\<open>ReturnTrue\<close>); the \<^verbatim>\<open>break\<close> after \<^verbatim>\<open>holeIndex = j\<close> and
  \<^verbatim>\<open>contains = false\<close> (\<open>InHole j\<close>); or its end, no hole holding \<open>coord\<close>
  (\<open>NoHole\<close>).\<close>

datatype hole_scan = ReturnTrue | InHole nat | NoHole

function geoLoopIntersectsPolygon_holes ::
  "GeoPolygon \<Rightarrow> BBox list \<Rightarrow> LatLng \<Rightarrow> int \<Rightarrow> nat \<Rightarrow> hole_scan" where
  "geoLoopIntersectsPolygon_holes geoPolygon bboxes coord holeIndex j =
     (if j < numHoles geoPolygon
      then (if pointInsideGeoLoop (holes geoPolygon ! j) (bboxes ! (j + 1)) coord
            then (if j > 0 \<and> holeIndex \<noteq> int j then ReturnTrue else InHole j)
            else geoLoopIntersectsPolygon_holes geoPolygon bboxes coord holeIndex (j + 1))
      else NoHole)"
  by pat_completeness auto
termination
  by (relation "measure (\<lambda>(geoPolygon, bboxes, coord, holeIndex, j). numHoles geoPolygon - j)")
    auto

text \<open>The \<^verbatim>\<open>for\<close> loop over the vertices of the candidate, from index \<open>i\<close> on with
  the current \<^verbatim>\<open>holeIndex\<close>: \<open>None\<close> when it leaves through a \<^verbatim>\<open>return true\<close>,
  \<open>Some holeIndex\<close> when it runs to its end.\<close>

function geoLoopIntersectsPolygon_verts ::
  "GeoPolygon \<Rightarrow> BBox list \<Rightarrow> GeoLoop \<Rightarrow> int \<Rightarrow> nat \<Rightarrow> int option" where
  "geoLoopIntersectsPolygon_verts geoPolygon bboxes loop holeIndex i =
     (if i < numVerts loop
      then
        (let coord = verts loop ! i;
             contains = pointInsideGeoLoop (geoloop geoPolygon) (bboxes ! 0) coord
         in if contains \<and> numHoles geoPolygon > 0
            then (case geoLoopIntersectsPolygon_holes geoPolygon bboxes coord holeIndex 0 of
                    ReturnTrue \<Rightarrow> None
                  | InHole j \<Rightarrow> geoLoopIntersectsPolygon_verts geoPolygon bboxes loop (int j) (i + 1)
                  | NoHole \<Rightarrow> None)
            else if contains then None
            else geoLoopIntersectsPolygon_verts geoPolygon bboxes loop holeIndex (i + 1))
      else Some holeIndex)"
  by pat_completeness auto
termination
  by (relation "measure (\<lambda>(geoPolygon, bboxes, loop, holeIndex, i). numVerts loop - i)") auto

text \<open>The last \<^verbatim>\<open>for\<close> loop, over the segments of the candidate against the one
  loop \<open>geoloop\<close> with the box \<open>bbox\<close>: \<open>True\<close> when it leaves through its
  \<^verbatim>\<open>return true\<close>.\<close>

function geoLoopIntersectsPolygon_segs :: "GeoLoop \<Rightarrow> BBox \<Rightarrow> GeoLoop \<Rightarrow> nat \<Rightarrow> bool" where
  "geoLoopIntersectsPolygon_segs gloop bbox loop i =
     (if i < numVerts loop
      then (if segmentIntersectsGeoLoop gloop bbox (verts loop ! i)
                 (verts loop ! ((i + 1) mod numVerts loop))
            then True
            else geoLoopIntersectsPolygon_segs gloop bbox loop (i + 1))
      else False)"
  by pat_completeness auto
termination
  by (relation "measure (\<lambda>(gloop, bbox, loop, i). numVerts loop - i)") auto

definition geoLoopIntersectsPolygon :: "GeoPolygon \<Rightarrow> BBox list \<Rightarrow> GeoLoop \<Rightarrow> bool" where
  "geoLoopIntersectsPolygon geoPolygon bboxes loop =
     (case geoLoopIntersectsPolygon_verts geoPolygon bboxes loop (- 1) 0 of
        None \<Rightarrow> True
      | Some holeIndex \<Rightarrow>
          if numVerts loop > 1
          then
            (let gloop = (if holeIndex = - 1 then geoloop geoPolygon
                          else holes geoPolygon ! nat holeIndex);
                 bbox = (if holeIndex = - 1 then bboxes ! 0 else bboxes ! nat holeIndex)
             in geoLoopIntersectsPolygon_segs gloop bbox loop 0)
          else False)"

section \<open>Notions used to state the properties\<close>









section \<open>Fixtures\<close>

text \<open>A decimal literal \<^verbatim>\<open>0.01\<close> of the test suite is the binary64 value \<open>rnd 0.01\<close>,
  and \<^verbatim>\<open>-M_PI + 0.01\<close> is \<open>dadd (- M_PI) (rnd 0.01)\<close>.

  The unit square of \<^verbatim>\<open>pointInsideGeoLoopCornerCases\<close> in \<^verbatim>\<open>testPolygon.c\<close>, each
  vertex a \<^verbatim>\<open>{lat, lng}\<close>; and the square with the same four pairs read as
  (longitude, latitude).\<close>

definition unitSquare :: GeoLoop where
  "unitSquare = \<lparr>verts = [\<lparr>lat = 0, lng = 0\<rparr>, \<lparr>lat = 1, lng = 0\<rparr>,
                          \<lparr>lat = 1, lng = 1\<rparr>, \<lparr>lat = 0, lng = 1\<rparr>]\<rparr>"

definition unitSquareLngLat :: GeoLoop where
  "unitSquareLngLat = \<lparr>verts = [\<lparr>lat = 0, lng = 0\<rparr>, \<lparr>lat = 0, lng = 1\<rparr>,
                                \<lparr>lat = 1, lng = 1\<rparr>, \<lparr>lat = 1, lng = 0\<rparr>]\<rparr>"

text \<open>The loop and two of the points of \<^verbatim>\<open>pointInsideGeoLoopTransmeridian\<close>.\<close>

definition transMeridianGeoLoop :: GeoLoop where
  "transMeridianGeoLoop =
     \<lparr>verts = [\<lparr>lat = rnd 0.01, lng = dadd (- M_PI) (rnd 0.01)\<rparr>,
               \<lparr>lat = rnd 0.01, lng = dsub M_PI (rnd 0.01)\<rparr>,
               \<lparr>lat = - rnd 0.01, lng = dsub M_PI (rnd 0.01)\<rparr>,
               \<lparr>lat = - rnd 0.01, lng = dadd (- M_PI) (rnd 0.01)\<rparr>]\<rparr>"

definition eastPoint :: LatLng where
  "eastPoint = \<lparr>lat = rnd 0.001, lng = dadd (- M_PI) (rnd 0.001)\<rparr>"

definition eastPointOutside :: LatLng where
  "eastPointOutside = \<lparr>lat = rnd 0.001, lng = dadd (- M_PI) (rnd 0.1)\<rparr>"






text \<open>The polygon of \<^verbatim>\<open>geoLoopInsidePolygonWithHole\<close>: the unit square with one
  square hole; a point of its active region and a point of its hole.\<close>

definition holedSquare :: GeoPolygon where
  "holedSquare =
     \<lparr>geoloop = \<lparr>verts = [\<lparr>lat = 0, lng = 0\<rparr>, \<lparr>lat = 0, lng = 1\<rparr>,
                          \<lparr>lat = 1, lng = 1\<rparr>, \<lparr>lat = 1, lng = 0\<rparr>]\<rparr>,
      holes = [\<lparr>verts = [\<lparr>lat = rnd 0.4, lng = rnd 0.4\<rparr>, \<lparr>lat = rnd 0.4, lng = rnd 0.6\<rparr>,
                         \<lparr>lat = rnd 0.6, lng = rnd 0.6\<rparr>, \<lparr>lat = rnd 0.6, lng = rnd 0.4\<rparr>]\<rparr>]\<rparr>"

definition activePoint :: LatLng where
  "activePoint = \<lparr>lat = 0.25, lng = 0.25\<rparr>"

definition holePoint :: LatLng where
  "holePoint = \<lparr>lat = 0.5, lng = 0.5\<rparr>"

text \<open>A polygon across the antimeridian. Its outer loop runs from longitude \<open>2\<close>
  through \<open>\<plusminus>\<pi>\<close> to longitude \<open>-2\<close>, between the latitudes \<open>-1\<close> and \<open>1\<close>. Its
  one hole (index 0) lies inside, east of longitude \<open>2\<close>: the rectangle of the
  longitudes \<open>2.25\<close> to \<open>3\<close> and the latitudes \<open>-0.5\<close> to \<open>0.5\<close>, with a notch cut
  from the north between the longitudes \<open>2.5\<close> and \<open>2.75\<close> down to latitude \<open>0\<close>,
  which leaves a western and an eastern arm. All coordinates are binary
  fractions.\<close>

definition transOuter :: GeoLoop where
  "transOuter = \<lparr>verts = [\<lparr>lat = 1, lng = 2\<rparr>, \<lparr>lat = 1, lng = - 2\<rparr>,
                          \<lparr>lat = - 1, lng = - 2\<rparr>, \<lparr>lat = - 1, lng = 2\<rparr>]\<rparr>"

definition notchedHole :: GeoLoop where
  "notchedHole = \<lparr>verts = [\<lparr>lat = 0.5, lng = 2.25\<rparr>, \<lparr>lat = 0.5, lng = 2.5\<rparr>,
                           \<lparr>lat = 0, lng = 2.5\<rparr>, \<lparr>lat = 0, lng = 2.75\<rparr>,
                           \<lparr>lat = 0.5, lng = 2.75\<rparr>, \<lparr>lat = 0.5, lng = 3\<rparr>,
                           \<lparr>lat = - 0.5, lng = 3\<rparr>, \<lparr>lat = - 0.5, lng = 2.25\<rparr>]\<rparr>"

definition transPolygon :: GeoPolygon where
  "transPolygon = \<lparr>geoloop = transOuter, holes = [notchedHole]\<rparr>"

text \<open>A point in the western arm of the hole, a point in its eastern arm, and a
  point north of the outer loop.\<close>

definition armWest :: LatLng where
  "armWest = \<lparr>lat = 0.25, lng = 2.375\<rparr>"

definition armEast :: LatLng where
  "armEast = \<lparr>lat = 0.25, lng = 2.875\<rparr>"

definition northOfOuter :: LatLng where
  "northOfOuter = \<lparr>lat = 2, lng = 2.375\<rparr>"

section \<open>Auxiliary facts\<close>

declare pointInsidePolygon_holes.simps [simp del]
declare geoLoopInsidePolygon_verts.simps [simp del]
declare geoLoopInsidePolygon_holeVerts.simps [simp del]
declare geoLoopInsidePolygon_holes.simps [simp del]
declare geoLoopInsidePolygon_segHoles.simps [simp del]
declare geoLoopInsidePolygon_segs.simps [simp del]
declare geoLoopIntersectsPolygon_holes.simps [simp del]
declare geoLoopIntersectsPolygon_verts.simps [simp del]
declare geoLoopIntersectsPolygon_segs.simps [simp del]

subsection \<open>Rounding a given number\<close>

lemma binade_eqI:
  assumes "2 powi e \<le> \<bar>x\<bar>" and "\<bar>x\<bar> < 2 powi (e + 1)"
  shows "binade x = e"
proof -
  have pos: "0 < \<bar>x\<bar>"
    using assms(1) by (smt (verit) zero_less_power_int zero_less_numeral)
  have p: "(2::real) powr (of_int k) = 2 powi k" for k
    by (simp add: powr_real_of_int power_int_def power_one_over inverse_eq_divide)
  have "\<lfloor>log 2 \<bar>x\<bar>\<rfloor> = e"
    using assms pos by (subst floor_log_eq_powr_iff) (simp_all add: p [symmetric])
  then show ?thesis by (simp add: binade_def)
qed

text \<open>The rounding of \<open>x\<close> in the binade \<open>e\<close> of the normal range.\<close>

lemma rnd_eqI:
  assumes "2 powi e \<le> \<bar>x\<bar>" and "\<bar>x\<bar> < 2 powi (e + 1)" and "- 1022 \<le> e"
    and "round_even (x / 2 powi (e - 52)) = m"
  shows "rnd x = of_int m * 2 powi (e - 52)"
proof -
  have b: "binade x = e" using assms(1,2) by (rule binade_eqI)
  have "x \<noteq> 0"
    using assms(1) by (smt (verit) zero_less_power_int zero_less_numeral abs_zero)
  then show ?thesis using assms(3,4) by (simp add: rnd_def ulp_def b max_def)
qed

lemma rnd_0 [simp]: "rnd 0 = 0"
  by (simp add: rnd_def)

text \<open>The roundings that the fixtures need, each by \<open>rnd_eqI\<close>.\<close>

lemma rnd_v0: "rnd (- (1762929938472897 / 281474976710656)) = - (1762929938472897 / 281474976710656)"
  by (rule trans, rule rnd_eqI [where e = "2" and m = "- 7051719753891588"])
    (simp_all add: round_even_def)

lemma rnd_v1: "rnd (- (6849057770659915 / 1125899906842624)) = - (6849057770659915 / 1125899906842624)"
  by (rule trans, rule rnd_eqI [where e = "2" and m = "- 6849057770659915"])
    (simp_all add: round_even_def)

lemma rnd_v2: "rnd (- 4) = - 4"
  by (rule trans, rule rnd_eqI [where e = "2" and m = "- 4503599627370496"])
    (simp_all add: round_even_def)

lemma rnd_v3: "rnd (- (15 / 4)) = - (15 / 4)"
  by (rule trans, rule rnd_eqI [where e = "1" and m = "- 8444249301319680"])
    (simp_all add: round_even_def)

lemma rnd_v4: "rnd (- (14148475504056881 / 4503599627370496)) = - (884279719003555 / 281474976710656)"
  by (rule trans, rule rnd_eqI [where e = "1" and m = "- 7074237752028440"])
    (simp_all add: round_even_def)

lemma rnd_v5: "rnd (- (884279719003555 / 281474976710656)) = - (884279719003555 / 281474976710656)"
  by (rule trans, rule rnd_eqI [where e = "1" and m = "- 7074237752028440"])
    (simp_all add: round_even_def)

lemma rnd_v6: "rnd (- (3620856807533954433 / 1152921504606846976)) = - (7071985952214755 / 2251799813685248)"
  by (rule trans, rule rnd_eqI [where e = "1" and m = "- 7071985952214755"])
    (simp_all add: round_even_def)

lemma rnd_v7: "rnd (- (1805240256996246405 / 576460752303423488)) = - (1762929938472897 / 562949953421312)"
  by (rule trans, rule rnd_eqI [where e = "1" and m = "- 7051719753891588"])
    (simp_all add: round_even_def)

lemma rnd_v8: "rnd (- (109584924330558643 / 36028797018963968)) = - (6849057770659915 / 2251799813685248)"
  by (rule trans, rule rnd_eqI [where e = "1" and m = "- 6849057770659915"])
    (simp_all add: round_even_def)

lemma rnd_v9: "rnd (- (52991022314331123 / 18014398509481984)) = - (3311938894645695 / 1125899906842624)"
  by (rule trans, rule rnd_eqI [where e = "1" and m = "- 6623877789291390"])
    (simp_all add: round_even_def)

lemma rnd_v10: "rnd (- (3 / 2)) = - (3 / 2)"
  by (rule trans, rule rnd_eqI [where e = "0" and m = "- 6755399441055744"])
    (simp_all add: round_even_def)

lemma rnd_v11: "rnd (- 1) = - 1"
  by (rule trans, rule rnd_eqI [where e = "0" and m = "- 4503599627370496"])
    (simp_all add: round_even_def)

lemma rnd_v12: "rnd (- (3602879701896397 / 4503599627370496)) = - (3602879701896397 / 4503599627370496)"
  by (rule trans, rule rnd_eqI [where e = "- 1" and m = "- 7205759403792794"])
    (simp_all add: round_even_def)

lemma rnd_v13: "rnd (- (1 / 2)) = - (1 / 2)"
  by (rule trans, rule rnd_eqI [where e = "- 1" and m = "- 4503599627370496"])
    (simp_all add: round_even_def)

lemma rnd_v14: "rnd (- (1 / 4)) = - (1 / 4)"
  by (rule trans, rule rnd_eqI [where e = "- 2" and m = "- 4503599627370496"])
    (simp_all add: round_even_def)

lemma rnd_v15: "rnd (- (225179981368525 / 1125899906842624)) = - (225179981368525 / 1125899906842624)"
  by (rule trans, rule rnd_eqI [where e = "- 3" and m = "- 7205759403792800"])
    (simp_all add: round_even_def)

lemma rnd_v16: "rnd (- (900719925474099 / 4503599627370496)) = - (900719925474099 / 4503599627370496)"
  by (rule trans, rule rnd_eqI [where e = "- 3" and m = "- 7205759403792792"])
    (simp_all add: round_even_def)

lemma rnd_v17: "rnd (- (3 / 16)) = - (3 / 16)"
  by (rule trans, rule rnd_eqI [where e = "- 3" and m = "- 6755399441055744"])
    (simp_all add: round_even_def)

lemma rnd_v18: "rnd (- (1 / 8)) = - (1 / 8)"
  by (rule trans, rule rnd_eqI [where e = "- 3" and m = "- 4503599627370496"])
    (simp_all add: round_even_def)

lemma rnd_v19: "rnd (- (225179981368525 / 2251799813685248)) = - (225179981368525 / 2251799813685248)"
  by (rule trans, rule rnd_eqI [where e = "- 4" and m = "- 7205759403792800"])
    (simp_all add: round_even_def)

lemma rnd_v20: "rnd (- (3602879701896397 / 36028797018963968)) = - (3602879701896397 / 36028797018963968)"
  by (rule trans, rule rnd_eqI [where e = "- 4" and m = "- 7205759403792794"])
    (simp_all add: round_even_def)

lemma rnd_v21: "rnd (- (1 / 16)) = - (1 / 16)"
  by (rule trans, rule rnd_eqI [where e = "- 4" and m = "- 4503599627370496"])
    (simp_all add: round_even_def)

lemma rnd_v22: "rnd (- (1 / 4503599627370496)) = - (1 / 4503599627370496)"
  by (rule trans, rule rnd_eqI [where e = "- 52" and m = "- 4503599627370496"])
    (simp_all add: round_even_def)

lemma rnd_v23: "rnd (1 / 1152921504606846976) = 1 / 1152921504606846976"
  by (rule trans, rule rnd_eqI [where e = "- 60" and m = "4503599627370496"])
    (simp_all add: round_even_def)

lemma rnd_v24: "rnd (1 / 4503599627370496) = 1 / 4503599627370496"
  by (rule trans, rule rnd_eqI [where e = "- 52" and m = "4503599627370496"])
    (simp_all add: round_even_def)

lemma rnd_v25: "rnd (1 / 1000) = 1152921504606847 / 1152921504606846976"
  by (rule trans, rule rnd_eqI [where e = "- 10" and m = "4611686018427388"])
    (simp_all add: round_even_def)

lemma rnd_v26: "rnd (1 / 100) = 5764607523034235 / 576460752303423488"
  by (rule trans, rule rnd_eqI [where e = "- 7" and m = "5764607523034235"])
    (simp_all add: round_even_def)

lemma rnd_v27: "rnd (12980742146337070512478121581609 / 1298074214633706907132624082305024) = 1441151880758559 / 144115188075855872"
  by (rule trans, rule rnd_eqI [where e = "- 7" and m = "5764607523034236"])
    (simp_all add: round_even_def)

lemma rnd_v28: "rnd (1441151880758559 / 144115188075855872) = 1441151880758559 / 144115188075855872"
  by (rule trans, rule rnd_eqI [where e = "- 7" and m = "5764607523034236"])
    (simp_all add: round_even_def)

lemma rnd_v29: "rnd (12682136550675317 / 1152921504606846976) = 3170534137668829 / 288230376151711744"
  by (rule trans, rule rnd_eqI [where e = "- 7" and m = "6341068275337658"])
    (simp_all add: round_even_def)

lemma rnd_v30: "rnd (5764607523034235 / 288230376151711744) = 5764607523034235 / 288230376151711744"
  by (rule trans, rule rnd_eqI [where e = "- 6" and m = "5764607523034235"])
    (simp_all add: round_even_def)

lemma rnd_v31: "rnd (1 / 20) = 3602879701896397 / 72057594037927936"
  by (rule trans, rule rnd_eqI [where e = "- 5" and m = "7205759403792794"])
    (simp_all add: round_even_def)

lemma rnd_v32: "rnd (1 / 16) = 1 / 16"
  by (rule trans, rule rnd_eqI [where e = "- 4" and m = "4503599627370496"])
    (simp_all add: round_even_def)

lemma rnd_v33: "rnd (900719925474099 / 9007199254740992) = 900719925474099 / 9007199254740992"
  by (rule trans, rule rnd_eqI [where e = "- 4" and m = "7205759403792792"])
    (simp_all add: round_even_def)

lemma rnd_v34: "rnd (1 / 10) = 3602879701896397 / 36028797018963968"
  by (rule trans, rule rnd_eqI [where e = "- 4" and m = "7205759403792794"])
    (simp_all add: round_even_def)

lemma rnd_v35: "rnd (3602879701896397 / 36028797018963968) = 3602879701896397 / 36028797018963968"
  by (rule trans, rule rnd_eqI [where e = "- 4" and m = "7205759403792794"])
    (simp_all add: round_even_def)

lemma rnd_v36: "rnd (225179981368525 / 2251799813685248) = 225179981368525 / 2251799813685248"
  by (rule trans, rule rnd_eqI [where e = "- 4" and m = "7205759403792800"])
    (simp_all add: round_even_def)

lemma rnd_v37: "rnd (1 / 8) = 1 / 8"
  by (rule trans, rule rnd_eqI [where e = "- 3" and m = "4503599627370496"])
    (simp_all add: round_even_def)

lemma rnd_v38: "rnd (45035996273705 / 281474976710656) = 45035996273705 / 281474976710656"
  by (rule trans, rule rnd_eqI [where e = "- 3" and m = "5764607523034240"])
    (simp_all add: round_even_def)

lemma rnd_v39: "rnd (811296384146067582569826704425 / 5070602400912917605986812821504) = 45035996273705 / 281474976710656"
  by (rule trans, rule rnd_eqI [where e = "- 3" and m = "5764607523034240"])
    (simp_all add: round_even_def)

lemma rnd_v40: "rnd (3 / 16) = 3 / 16"
  by (rule trans, rule rnd_eqI [where e = "- 3" and m = "6755399441055744"])
    (simp_all add: round_even_def)

lemma rnd_v41: "rnd (900719925474099 / 4503599627370496) = 900719925474099 / 4503599627370496"
  by (rule trans, rule rnd_eqI [where e = "- 3" and m = "7205759403792792"])
    (simp_all add: round_even_def)

lemma rnd_v42: "rnd (1 / 5) = 3602879701896397 / 18014398509481984"
  by (rule trans, rule rnd_eqI [where e = "- 3" and m = "7205759403792794"])
    (simp_all add: round_even_def)

lemma rnd_v43: "rnd (225179981368525 / 1125899906842624) = 225179981368525 / 1125899906842624"
  by (rule trans, rule rnd_eqI [where e = "- 3" and m = "7205759403792800"])
    (simp_all add: round_even_def)

lemma rnd_v44: "rnd (1 / 4) = 1 / 4"
  by (rule trans, rule rnd_eqI [where e = "- 2" and m = "4503599627370496"])
    (simp_all add: round_even_def)

lemma rnd_v45: "rnd (45035996273705 / 140737488355328) = 45035996273705 / 140737488355328"
  by (rule trans, rule rnd_eqI [where e = "- 2" and m = "5764607523034240"])
    (simp_all add: round_even_def)

lemma rnd_v46: "rnd (6004799503160661 / 18014398509481984) = 6004799503160661 / 18014398509481984"
  by (rule trans, rule rnd_eqI [where e = "- 2" and m = "6004799503160661"])
    (simp_all add: round_even_def)

lemma rnd_v47: "rnd (1 / 3) = 6004799503160661 / 18014398509481984"
  by (rule trans, rule rnd_eqI [where e = "- 2" and m = "6004799503160661"])
    (simp_all add: round_even_def)

lemma rnd_v48: "rnd (3 / 8) = 3 / 8"
  by (rule trans, rule rnd_eqI [where e = "- 2" and m = "6755399441055744"])
    (simp_all add: round_even_def)

lemma rnd_v49: "rnd (2 / 5) = 3602879701896397 / 9007199254740992"
  by (rule trans, rule rnd_eqI [where e = "- 2" and m = "7205759403792794"])
    (simp_all add: round_even_def)

lemma rnd_v50: "rnd (3602879701896397 / 9007199254740992) = 3602879701896397 / 9007199254740992"
  by (rule trans, rule rnd_eqI [where e = "- 2" and m = "7205759403792794"])
    (simp_all add: round_even_def)

lemma rnd_v51: "rnd (1 / 2) = 1 / 2"
  by (rule trans, rule rnd_eqI [where e = "- 1" and m = "4503599627370496"])
    (simp_all add: round_even_def)

lemma rnd_v52: "rnd (3170534137668829 / 5764607523034235) = 4953959590107545 / 9007199254740992"
  by (rule trans, rule rnd_eqI [where e = "- 1" and m = "4953959590107545"])
    (simp_all add: round_even_def)

lemma rnd_v53: "rnd (5404319552844595 / 9007199254740992) = 5404319552844595 / 9007199254740992"
  by (rule trans, rule rnd_eqI [where e = "- 1" and m = "5404319552844595"])
    (simp_all add: round_even_def)

lemma rnd_v54: "rnd (3 / 5) = 5404319552844595 / 9007199254740992"
  by (rule trans, rule rnd_eqI [where e = "- 1" and m = "5404319552844595"])
    (simp_all add: round_even_def)

lemma rnd_v55: "rnd (5 / 8) = 5 / 8"
  by (rule trans, rule rnd_eqI [where e = "- 1" and m = "5629499534213120"])
    (simp_all add: round_even_def)

lemma rnd_v56: "rnd (3 / 4) = 3 / 4"
  by (rule trans, rule rnd_eqI [where e = "- 1" and m = "6755399441055744"])
    (simp_all add: round_even_def)

lemma rnd_v57: "rnd (3602879701896397 / 4503599627370496) = 3602879701896397 / 4503599627370496"
  by (rule trans, rule rnd_eqI [where e = "- 1" and m = "7205759403792794"])
    (simp_all add: round_even_def)

lemma rnd_v58: "rnd (4503599627370495 / 4503599627370496) = 4503599627370495 / 4503599627370496"
  by (rule trans, rule rnd_eqI [where e = "- 1" and m = "9007199254740990"])
    (simp_all add: round_even_def)

lemma rnd_v59: "rnd (1) = 1"
  by (rule trans, rule rnd_eqI [where e = "0" and m = "4503599627370496"])
    (simp_all add: round_even_def)

lemma rnd_v60: "rnd (4503599627370497 / 4503599627370496) = 4503599627370497 / 4503599627370496"
  by (rule trans, rule rnd_eqI [where e = "0" and m = "4503599627370497"])
    (simp_all add: round_even_def)

lemma rnd_v61: "rnd (5 / 4) = 5 / 4"
  by (rule trans, rule rnd_eqI [where e = "0" and m = "5629499534213120"])
    (simp_all add: round_even_def)

lemma rnd_v62: "rnd (3 / 2) = 3 / 2"
  by (rule trans, rule rnd_eqI [where e = "0" and m = "6755399441055744"])
    (simp_all add: round_even_def)

lemma rnd_v63: "rnd (2) = 2"
  by (rule trans, rule rnd_eqI [where e = "1" and m = "4503599627370496"])
    (simp_all add: round_even_def)

lemma rnd_v64: "rnd (9007199254740993 / 4503599627370496) = 2"
  by (rule trans, rule rnd_eqI [where e = "1" and m = "4503599627370496"])
    (simp_all add: round_even_def)

lemma rnd_v65: "rnd (9 / 4) = 9 / 4"
  by (rule trans, rule rnd_eqI [where e = "1" and m = "5066549580791808"])
    (simp_all add: round_even_def)

lemma rnd_v66: "rnd (5 / 2) = 5 / 2"
  by (rule trans, rule rnd_eqI [where e = "1" and m = "5629499534213120"])
    (simp_all add: round_even_def)

lemma rnd_v67: "rnd (11258999068426241 / 4503599627370496) = 5 / 2"
  by (rule trans, rule rnd_eqI [where e = "1" and m = "5629499534213120"])
    (simp_all add: round_even_def)

lemma rnd_v68: "rnd (11 / 4) = 11 / 4"
  by (rule trans, rule rnd_eqI [where e = "1" and m = "6192449487634432"])
    (simp_all add: round_even_def)

lemma rnd_v69: "rnd (52991022314331123 / 18014398509481984) = 3311938894645695 / 1125899906842624"
  by (rule trans, rule rnd_eqI [where e = "1" and m = "6623877789291390"])
    (simp_all add: round_even_def)

lemma rnd_v70: "rnd (3) = 3"
  by (rule trans, rule rnd_eqI [where e = "1" and m = "6755399441055744"])
    (simp_all add: round_even_def)

lemma rnd_v71: "rnd (109584924330558643 / 36028797018963968) = 6849057770659915 / 2251799813685248"
  by (rule trans, rule rnd_eqI [where e = "1" and m = "6849057770659915"])
    (simp_all add: round_even_def)

lemma rnd_v72: "rnd (1805240256996246405 / 576460752303423488) = 1762929938472897 / 562949953421312"
  by (rule trans, rule rnd_eqI [where e = "1" and m = "7051719753891588"])
    (simp_all add: round_even_def)

lemma rnd_v73: "rnd (1762929938472897 / 562949953421312) = 1762929938472897 / 562949953421312"
  by (rule trans, rule rnd_eqI [where e = "1" and m = "7051719753891588"])
    (simp_all add: round_even_def)

lemma rnd_v74: "rnd (3620856807533954433 / 1152921504606846976) = 7071985952214755 / 2251799813685248"
  by (rule trans, rule rnd_eqI [where e = "1" and m = "7071985952214755"])
    (simp_all add: round_even_def)

lemma rnd_v75: "rnd (884279719003555 / 281474976710656) = 884279719003555 / 281474976710656"
  by (rule trans, rule rnd_eqI [where e = "1" and m = "7074237752028440"])
    (simp_all add: round_even_def)

lemma rnd_v76: "rnd (14148475504056881 / 4503599627370496) = 884279719003555 / 281474976710656"
  by (rule trans, rule rnd_eqI [where e = "1" and m = "7074237752028440"])
    (simp_all add: round_even_def)

lemma rnd_v77: "rnd (7076489551842125 / 2251799813685248) = 7076489551842125 / 2251799813685248"
  by (rule trans, rule rnd_eqI [where e = "1" and m = "7076489551842125"])
    (simp_all add: round_even_def)

lemma rnd_v78: "rnd (1774188937541323 / 562949953421312) = 1774188937541323 / 562949953421312"
  by (rule trans, rule rnd_eqI [where e = "1" and m = "7096755750165292"])
    (simp_all add: round_even_def)

lemma rnd_v79: "rnd (7299417733396965 / 2251799813685248) = 7299417733396965 / 2251799813685248"
  by (rule trans, rule rnd_eqI [where e = "1" and m = "7299417733396965"])
    (simp_all add: round_even_def)

lemma rnd_v80: "rnd (15 / 4) = 15 / 4"
  by (rule trans, rule rnd_eqI [where e = "1" and m = "8444249301319680"])
    (simp_all add: round_even_def)

lemma rnd_v81: "rnd (4) = 4"
  by (rule trans, rule rnd_eqI [where e = "2" and m = "4503599627370496"])
    (simp_all add: round_even_def)

lemma rnd_v82: "rnd (602804742292899 / 140737488355328) = 602804742292899 / 140737488355328"
  by (rule trans, rule rnd_eqI [where e = "2" and m = "4822437938343192"])
    (simp_all add: round_even_def)

lemma rnd_v83: "rnd (6849057770659915 / 1125899906842624) = 6849057770659915 / 1125899906842624"
  by (rule trans, rule rnd_eqI [where e = "2" and m = "6849057770659915"])
    (simp_all add: round_even_def)

lemma rnd_v84: "rnd (1762929938472897 / 281474976710656) = 1762929938472897 / 281474976710656"
  by (rule trans, rule rnd_eqI [where e = "2" and m = "7051719753891588"])
    (simp_all add: round_even_def)

lemma rnd_v85: "rnd (884279719003555 / 140737488355328) = 884279719003555 / 140737488355328"
  by (rule trans, rule rnd_eqI [where e = "2" and m = "7074237752028440"])
    (simp_all add: round_even_def)

lemmas rnd_vals = rnd_v0 rnd_v1 rnd_v2 rnd_v3 rnd_v4 rnd_v5 rnd_v6 rnd_v7 rnd_v8 rnd_v9
  rnd_v10 rnd_v11 rnd_v12 rnd_v13 rnd_v14 rnd_v15 rnd_v16 rnd_v17 rnd_v18 rnd_v19
  rnd_v20 rnd_v21 rnd_v22 rnd_v23 rnd_v24 rnd_v25 rnd_v26 rnd_v27 rnd_v28 rnd_v29
  rnd_v30 rnd_v31 rnd_v32 rnd_v33 rnd_v34 rnd_v35 rnd_v36 rnd_v37 rnd_v38 rnd_v39
  rnd_v40 rnd_v41 rnd_v42 rnd_v43 rnd_v44 rnd_v45 rnd_v46 rnd_v47 rnd_v48 rnd_v49
  rnd_v50 rnd_v51 rnd_v52 rnd_v53 rnd_v54 rnd_v55 rnd_v56 rnd_v57 rnd_v58 rnd_v59
  rnd_v60 rnd_v61 rnd_v62 rnd_v63 rnd_v64 rnd_v65 rnd_v66 rnd_v67 rnd_v68 rnd_v69
  rnd_v70 rnd_v71 rnd_v72 rnd_v73 rnd_v74 rnd_v75 rnd_v76 rnd_v77 rnd_v78 rnd_v79
  rnd_v80 rnd_v81 rnd_v82 rnd_v83 rnd_v84 rnd_v85

subsection \<open>Bounds on the constants\<close>



subsection \<open>Unfolding the algorithms on a given loop\<close>

lemmas eval_arith = dadd_def dsub_def dmul_def ddiv_def M_PI_def M_2PI_def DBL_EPSILON_def
  rnd_vals

lemmas eval_loop = ITERATE_def numVerts_def numHoles_def IS_EMPTY_def upt_conv_Cons

lemmas eval_bbox = bboxFromGeoLoop_def bboxFrom_init_def bboxFrom_step_def DBL_MAX_def
  Let_def eval_arith

lemmas eval_point = pointInsideGeoLoop_def bboxContains_def bboxIsTransmeridian_def
  NORMALIZE_LNG_def pointInside_step_def Let_def eval_arith

lemmas eval_seg = segmentIntersectsGeoLoop_def segmentIntersects_step_def
  bboxIsTransmeridian_def NORMALIZE_LNG_def geoAlmostEqualThreshold_def v2dOrient_def
  Let_def eval_arith

subsection \<open>\<^verbatim>\<open>M_PI\<close> and \<open>\<pi>\<close>\<close>





subsection \<open>Bounds on a rounded number\<close>






subsection \<open>The loops over the holes\<close>

lemma pointInsidePolygon_holes_iff:
  "pointInsidePolygon_holes p bboxes coord i =
     (\<exists>k. i \<le> k \<and> k < numHoles p \<and> pointInsideGeoLoop (holes p ! k) (bboxes ! (k + 1)) coord)"
proof (induction p bboxes coord i rule: pointInsidePolygon_holes.induct)
  case (1 p bboxes coord i)
  show ?case
  proof (cases "i < numHoles p")
    case False
    then show ?thesis by (subst pointInsidePolygon_holes.simps) auto
  next
    case True
    show ?thesis
    proof (cases "pointInsideGeoLoop (holes p ! i) (bboxes ! (i + 1)) coord")
      case hit: True
      with True show ?thesis by (subst pointInsidePolygon_holes.simps) auto
    next
      case miss: False
      have "pointInsidePolygon_holes p bboxes coord i =
          pointInsidePolygon_holes p bboxes coord (i + 1)"
        using True miss by (subst pointInsidePolygon_holes.simps) simp
      also have "\<dots> = (\<exists>k. i + 1 \<le> k \<and> k < numHoles p \<and>
          pointInsideGeoLoop (holes p ! k) (bboxes ! (k + 1)) coord)"
        using "1.IH" True miss by simp
      also have "\<dots> = (\<exists>k. i \<le> k \<and> k < numHoles p \<and>
          pointInsideGeoLoop (holes p ! k) (bboxes ! (k + 1)) coord)"
        using miss by (metis Suc_eq_plus1 Suc_leI le_eq_less_or_eq less_Suc_eq_le not_less_eq_eq)
      finally show ?thesis .
    qed
  qed
qed

subsection \<open>The hole index of \<^verbatim>\<open>geoLoopIntersectsPolygon\<close>\<close>

text \<open>A vertex inside hole 0 never takes the \<^verbatim>\<open>return true\<close> of the scan, whatever
  was recorded before it: the guard asks for \<^verbatim>\<open>j > 0\<close>.\<close>

lemma geoLoopIntersectsPolygon_holes_hole0:
  "0 < numHoles p \<Longrightarrow> pointInsideGeoLoop (holes p ! 0) (bboxes ! 1) coord \<Longrightarrow>
   geoLoopIntersectsPolygon_holes p bboxes coord holeIndex 0 = InHole 0"
  by (simp add: geoLoopIntersectsPolygon_holes.simps [of _ _ _ _ 0])

lemma geoLoopIntersectsPolygon_holes_InHole:
  "geoLoopIntersectsPolygon_holes p bboxes coord holeIndex j = InHole k \<Longrightarrow>
   k = 0 \<or> int k = holeIndex"
proof (induction p bboxes coord holeIndex j rule: geoLoopIntersectsPolygon_holes.induct)
  case (1 p bboxes coord holeIndex j)
  from "1.prems" show ?case
    by (subst (asm) geoLoopIntersectsPolygon_holes.simps)
      (auto split: if_splits dest: "1.IH")
qed

text \<open>So the scan of the vertices ends with the hole index it started with or
  with 0, and the edge test that follows a scan from \<open>-1\<close> runs against the outer
  loop or against hole 0, in both cases with \<^verbatim>\<open>bboxes[0]\<close>.\<close>

lemma geoLoopIntersectsPolygon_verts_holeIndex:
  "geoLoopIntersectsPolygon_verts p bboxes loop holeIndex i = Some h \<Longrightarrow>
   h = holeIndex \<or> h = 0"
proof (induction p bboxes loop holeIndex i rule: geoLoopIntersectsPolygon_verts.induct)
  case (1 p bboxes loop holeIndex i)
  show ?case
  proof (cases "i < numVerts loop")
    case False
    with "1.prems" show ?thesis
      by (subst (asm) geoLoopIntersectsPolygon_verts.simps) simp
  next
    case True
    let ?coord = "verts loop ! i"
    let ?contains = "pointInsideGeoLoop (geoloop p) (bboxes ! 0) ?coord"
    show ?thesis
    proof (cases "?contains \<and> numHoles p > 0")
      case c: True
      from "1.prems" True c obtain k where
        k: "geoLoopIntersectsPolygon_holes p bboxes ?coord holeIndex 0 = InHole k"
        and r: "geoLoopIntersectsPolygon_verts p bboxes loop (int k) (i + 1) = Some h"
        by (subst (asm) geoLoopIntersectsPolygon_verts.simps)
          (auto simp add: Let_def split: hole_scan.splits)
      from "1.IH"(1) [OF True refl refl c k r] have "h = int k \<or> h = 0" .
      moreover from geoLoopIntersectsPolygon_holes_InHole [OF k]
      have "k = 0 \<or> int k = holeIndex" .
      ultimately show ?thesis by auto
    next
      case nc: False
      from "1.prems" True nc have nc': "\<not> ?contains"
        and r: "geoLoopIntersectsPolygon_verts p bboxes loop holeIndex (i + 1) = Some h"
        by (subst (asm) geoLoopIntersectsPolygon_verts.simps;
            auto simp add: Let_def split: if_splits)+
      from "1.IH"(2) [OF True refl refl nc nc'] r show ?thesis by simp
    qed
  qed
qed

lemma geoLoopIntersectsPolygon_edge_test:
  assumes "geoLoopIntersectsPolygon_verts p bboxes loop (- 1) 0 = Some h"
    and "1 < numVerts loop"
  shows "geoLoopIntersectsPolygon p bboxes loop =
     geoLoopIntersectsPolygon_segs (if h = - 1 then geoloop p else holes p ! 0)
       (bboxes ! 0) loop 0"
proof -
  from geoLoopIntersectsPolygon_verts_holeIndex [OF assms(1)] have "h = - 1 \<or> h = 0" .
  then show ?thesis
    using assms by (auto simp add: geoLoopIntersectsPolygon_def Let_def)
qed

subsection \<open>The fixtures evaluated\<close>

lemma bbox_unitSquare:
  "bboxFromGeoLoop unitSquare = \<lparr>north = 1, south = 0, east = 1, west = 0\<rparr>"
  "bboxFromGeoLoop unitSquareLngLat = \<lparr>north = 1, south = 0, east = 1, west = 0\<rparr>"
  by (simp_all add: unitSquare_def unitSquareLngLat_def eval_loop eval_bbox)

lemma bbox_transMeridianGeoLoop:
  "bboxFromGeoLoop transMeridianGeoLoop =
     \<lparr>north = rnd 0.01, south = - rnd 0.01, east = dadd (- M_PI) (rnd 0.01),
      west = dsub M_PI (rnd 0.01)\<rparr>"
  by (simp add: transMeridianGeoLoop_def eval_loop eval_bbox)









lemma holedSquare_sel:
  "numHoles holedSquare = 1"
  "length (bboxesFromGeoPolygon holedSquare) = numHoles holedSquare + 1"
  by (simp_all add: holedSquare_def numHoles_def bboxesFromGeoPolygon_def)

lemma bboxes_holedSquare:
  "bboxesFromGeoPolygon holedSquare =
     [\<lparr>north = 1, south = 0, east = 1, west = 0\<rparr>,
      \<lparr>north = rnd 0.6, south = rnd 0.4, east = rnd 0.6, west = rnd 0.4\<rparr>]"
  by (simp add: bboxesFromGeoPolygon_def holedSquare_def eval_loop eval_bbox)

lemma holedSquare_activePoint:
  "pointInsideGeoLoop (geoloop holedSquare) (bboxesFromGeoPolygon holedSquare ! 0) activePoint"
  "\<not> pointInsideGeoLoop (holes holedSquare ! 0) (bboxesFromGeoPolygon holedSquare ! (0 + 1))
       activePoint"
  unfolding bboxes_holedSquare
  by (simp_all add: holedSquare_def activePoint_def eval_loop eval_point)

lemma holedSquare_holePoint:
  "pointInsideGeoLoop (geoloop holedSquare) (bboxesFromGeoPolygon holedSquare ! 0) holePoint"
  "pointInsideGeoLoop (holes holedSquare ! 0) (bboxesFromGeoPolygon holedSquare ! (0 + 1))
     holePoint"
  unfolding bboxes_holedSquare
  by (simp_all add: holedSquare_def holePoint_def eval_loop eval_point)

lemma pointInsidePolygon_activePoint:
  "pointInsidePolygon holedSquare (bboxesFromGeoPolygon holedSquare) activePoint"
  using holedSquare_activePoint
  by (simp add: pointInsidePolygon_def holedSquare_sel pointInsidePolygon_holes_iff)

lemma pointInsidePolygon_holePoint:
  "\<not> pointInsidePolygon holedSquare (bboxesFromGeoPolygon holedSquare) holePoint"
  using holedSquare_holePoint
  by (simp add: pointInsidePolygon_def holedSquare_sel pointInsidePolygon_holes_iff)

lemma bbox_transOuter:
  "bboxFromGeoLoop transOuter = \<lparr>north = 1, south = - 1, east = - 2, west = 2\<rparr>"
  by (simp add: transOuter_def eval_loop eval_bbox)

lemma bbox_notchedHole:
  "bboxFromGeoLoop notchedHole = \<lparr>north = 0.5, south = - 0.5, east = 3, west = 2.25\<rparr>"
  by (simp add: notchedHole_def eval_loop eval_bbox)

lemma transPolygon_sel:
  "geoloop transPolygon = transOuter"
  "holes transPolygon = [notchedHole]"
  "numHoles transPolygon = 1"
  "bboxesFromGeoPolygon transPolygon = [bboxFromGeoLoop transOuter, bboxFromGeoLoop notchedHole]"
  by (simp_all add: transPolygon_def numHoles_def bboxesFromGeoPolygon_def)

lemma transOuter_armWest: "pointInsideGeoLoop transOuter (bboxFromGeoLoop transOuter) armWest"
  unfolding bbox_transOuter
  by (simp add: transOuter_def armWest_def eval_loop eval_point)

lemma transOuter_armEast: "pointInsideGeoLoop transOuter (bboxFromGeoLoop transOuter) armEast"
  unfolding bbox_transOuter
  by (simp add: transOuter_def armEast_def eval_loop eval_point)

lemma transOuter_northOfOuter:
  "\<not> pointInsideGeoLoop transOuter (bboxFromGeoLoop transOuter) northOfOuter"
  unfolding bbox_transOuter
  by (simp add: transOuter_def northOfOuter_def eval_loop eval_point)

lemma notchedHole_armWest:
  "pointInsideGeoLoop notchedHole (bboxFromGeoLoop notchedHole) armWest"
  unfolding bbox_notchedHole
  by (simp add: notchedHole_def armWest_def eval_loop eval_point)

lemma notchedHole_armEast:
  "pointInsideGeoLoop notchedHole (bboxFromGeoLoop notchedHole) armEast"
  unfolding bbox_notchedHole
  by (simp add: notchedHole_def armEast_def eval_loop eval_point)

text \<open>The segment between the two arms crosses the notch: the edge test with the
  hole's own box finds it.\<close>

lemma notchedHole_arms_own_bbox:
  "segmentIntersectsGeoLoop notchedHole (bboxFromGeoLoop notchedHole) armWest armEast"
  unfolding bbox_notchedHole
  by (simp add: notchedHole_def armWest_def armEast_def eval_loop eval_seg)

text \<open>With the box of the outer loop, whose east bound is \<open>-2\<close>, the fast reject
  of \<^verbatim>\<open>segmentIntersects\<close> takes every segment east of longitude \<open>2\<close>.\<close>

lemma notchedHole_outer_bbox:
  "\<not> segmentIntersectsGeoLoop notchedHole (bboxFromGeoLoop transOuter) armWest armEast"
  "\<not> segmentIntersectsGeoLoop notchedHole (bboxFromGeoLoop transOuter) armEast armWest"
  "\<not> segmentIntersectsGeoLoop notchedHole (bboxFromGeoLoop transOuter) northOfOuter armWest"
  "\<not> segmentIntersectsGeoLoop notchedHole (bboxFromGeoLoop transOuter) armWest northOfOuter"
  unfolding bbox_transOuter
  by (simp_all add: armWest_def armEast_def northOfOuter_def segmentIntersectsGeoLoop_def)

lemma transPolygon_holes_scan:
  "geoLoopIntersectsPolygon_holes transPolygon
     [bboxFromGeoLoop transOuter, bboxFromGeoLoop notchedHole] armWest h 0 = InHole 0"
  "geoLoopIntersectsPolygon_holes transPolygon
     [bboxFromGeoLoop transOuter, bboxFromGeoLoop notchedHole] armEast h 0 = InHole 0"
  by (rule geoLoopIntersectsPolygon_holes_hole0;
      simp add: transPolygon_sel notchedHole_armWest notchedHole_armEast)+

lemma transPolygon_verts_arms:
  "geoLoopIntersectsPolygon_verts transPolygon
     [bboxFromGeoLoop transOuter, bboxFromGeoLoop notchedHole]
     \<lparr>verts = [armWest, armEast]\<rparr> (- 1) 0 = Some 0"
  by (simp add: geoLoopIntersectsPolygon_verts.simps numVerts_def transPolygon_holes_scan
      transPolygon_sel transOuter_armWest transOuter_armEast)

lemma transPolygon_verts_into_hole:
  "geoLoopIntersectsPolygon_verts transPolygon
     [bboxFromGeoLoop transOuter, bboxFromGeoLoop notchedHole]
     \<lparr>verts = [northOfOuter, armWest]\<rparr> (- 1) 0 = Some 0"
  by (simp add: geoLoopIntersectsPolygon_verts.simps numVerts_def transPolygon_holes_scan
      transPolygon_sel transOuter_armWest transOuter_northOfOuter)

lemma transMeridianGeoLoop_points:
  "pointInsideGeoLoop transMeridianGeoLoop (bboxFromGeoLoop transMeridianGeoLoop) eastPoint"
  "\<not> pointInsideGeoLoop transMeridianGeoLoop (bboxFromGeoLoop transMeridianGeoLoop)
       eastPointOutside"
  unfolding bbox_transMeridianGeoLoop
  by (simp_all add: transMeridianGeoLoop_def eastPoint_def eastPointOutside_def eval_loop
      eval_point)

lemma unitSquare_corners:
  "\<not> pointInsideGeoLoop unitSquare (bboxFromGeoLoop unitSquare) \<lparr>lat = 0, lng = 0\<rparr>"
  "\<not> pointInsideGeoLoop unitSquare (bboxFromGeoLoop unitSquare) \<lparr>lat = 1, lng = 0\<rparr>"
  "\<not> pointInsideGeoLoop unitSquare (bboxFromGeoLoop unitSquare) \<lparr>lat = 1, lng = 1\<rparr>"
  "pointInsideGeoLoop unitSquare (bboxFromGeoLoop unitSquare) \<lparr>lat = 0, lng = 1\<rparr>"
  unfolding bbox_unitSquare
  by (simp_all add: unitSquare_def eval_loop eval_point)

lemma unitSquare_edges:
  assumes "0 < t" and "t < 1"
  shows "\<not> pointInsideGeoLoop unitSquare (bboxFromGeoLoop unitSquare) \<lparr>lat = t, lng = 0\<rparr>"
    and "\<not> pointInsideGeoLoop unitSquare (bboxFromGeoLoop unitSquare) \<lparr>lat = 1, lng = t\<rparr>"
    and "pointInsideGeoLoop unitSquare (bboxFromGeoLoop unitSquare) \<lparr>lat = t, lng = 1\<rparr>"
    and "pointInsideGeoLoop unitSquare (bboxFromGeoLoop unitSquare) \<lparr>lat = 0, lng = t\<rparr>"
  unfolding bbox_unitSquare
  using assms by (simp_all add: unitSquare_def eval_loop eval_point)

lemma unitSquareLngLat_corners:
  "\<not> pointInsideGeoLoop unitSquareLngLat (bboxFromGeoLoop unitSquareLngLat)
       \<lparr>lat = 0, lng = 0\<rparr>"
  "\<not> pointInsideGeoLoop unitSquareLngLat (bboxFromGeoLoop unitSquareLngLat)
       \<lparr>lat = 1, lng = 0\<rparr>"
  "\<not> pointInsideGeoLoop unitSquareLngLat (bboxFromGeoLoop unitSquareLngLat)
       \<lparr>lat = 1, lng = 1\<rparr>"
  "pointInsideGeoLoop unitSquareLngLat (bboxFromGeoLoop unitSquareLngLat) \<lparr>lat = 0, lng = 1\<rparr>"
  unfolding bbox_unitSquare
  by (simp_all add: unitSquareLngLat_def eval_loop eval_point)

lemma unitSquareLngLat_edges:
  assumes "0 < t" and "t < 1"
  shows "\<not> pointInsideGeoLoop unitSquareLngLat (bboxFromGeoLoop unitSquareLngLat)
           \<lparr>lat = t, lng = 0\<rparr>"
    and "\<not> pointInsideGeoLoop unitSquareLngLat (bboxFromGeoLoop unitSquareLngLat)
           \<lparr>lat = 1, lng = t\<rparr>"
    and "pointInsideGeoLoop unitSquareLngLat (bboxFromGeoLoop unitSquareLngLat)
           \<lparr>lat = t, lng = 1\<rparr>"
    and "pointInsideGeoLoop unitSquareLngLat (bboxFromGeoLoop unitSquareLngLat)
           \<lparr>lat = 0, lng = t\<rparr>"
  unfolding bbox_unitSquare
  using assms by (simp_all add: unitSquareLngLat_def eval_loop eval_point)

subsection \<open>The state of \<^verbatim>\<open>bboxFrom\<close> after its loop\<close>













subsection \<open>The loop of \<^verbatim>\<open>isClockwiseNormalized\<close>\<close>




section \<open>The claims\<close>

subsection \<open>\<^verbatim>\<open>geoLoopIntersectsPolygon\<close>\<close>

text \<open>
  C1. Claim: \<^verbatim>\<open>geoLoopIntersectsPolygon\<close> returns true as soon as a scanned vertex
  lies inside a hole while a previous vertex was recorded in a different hole or
  in no hole (outside the outer loop).

  The source guards that return with \<^verbatim>\<open>j > 0 && holeIndex != j\<close>, against its own
  comment (``previous point is either outside the outer loop or in a different
  hole''): a vertex inside hole 0 never takes it. On \<open>transPolygon\<close>, for the
  candidate whose first vertex lies outside the outer loop and whose second
  vertex lies inside the outer loop and inside hole 0, the scan records hole 0
  and goes on, the edge test that follows rejects both edges, and the function
  returns false.
\<close>

theorem geoLoopIntersectsPolygon_outside_then_hole0:
  "\<not> pointInsideGeoLoop (geoloop transPolygon) (bboxesFromGeoPolygon transPolygon ! 0)
       northOfOuter \<and>
   pointInsideGeoLoop (geoloop transPolygon) (bboxesFromGeoPolygon transPolygon ! 0) armWest \<and>
   pointInsideGeoLoop (holes transPolygon ! 0) (bboxesFromGeoPolygon transPolygon ! 1) armWest \<and>
   \<not> geoLoopIntersectsPolygon transPolygon (bboxesFromGeoPolygon transPolygon)
       \<lparr>verts = [northOfOuter, armWest]\<rparr>"
proof -
  have "\<not> geoLoopIntersectsPolygon transPolygon (bboxesFromGeoPolygon transPolygon)
       \<lparr>verts = [northOfOuter, armWest]\<rparr>"
    unfolding transPolygon_sel
    by (subst geoLoopIntersectsPolygon_edge_test [OF transPolygon_verts_into_hole])
      (simp_all add: numVerts_def transPolygon_sel geoLoopIntersectsPolygon_segs.simps
        notchedHole_outer_bbox)
  then show ?thesis
    by (simp add: transPolygon_sel transOuter_northOfOuter transOuter_armWest
        notchedHole_armWest)
qed

text \<open>
  C2. Claim: when the vertex scan ends with no early return, the candidate has
  at least 2 vertices and all of them were found inside hole \<open>j\<close>, every
  candidate edge is tested against that hole's loop paired with that hole's own
  bounding box \<^verbatim>\<open>bboxes[j + 1]\<close>, and any hit yields true.

  The source pairs the hole's loop with \<^verbatim>\<open>bboxes[holeIndex]\<close>, which for hole 0 is
  the box of the outer loop (the scan itself reads \<^verbatim>\<open>bboxes[j + 1]\<close>). On
  \<open>transPolygon\<close> both vertices of the candidate lie inside hole 0 and the edge
  between them crosses the notch of that hole: the edge test with
  \<^verbatim>\<open>bboxes[1]\<close> is a hit, and the function returns false.
\<close>

theorem geoLoopIntersectsPolygon_hole0_edges_outer_bbox:
  "pointInsideGeoLoop (geoloop transPolygon) (bboxesFromGeoPolygon transPolygon ! 0) armWest \<and>
   pointInsideGeoLoop (holes transPolygon ! 0) (bboxesFromGeoPolygon transPolygon ! 1) armWest \<and>
   pointInsideGeoLoop (geoloop transPolygon) (bboxesFromGeoPolygon transPolygon ! 0) armEast \<and>
   pointInsideGeoLoop (holes transPolygon ! 0) (bboxesFromGeoPolygon transPolygon ! 1) armEast \<and>
   segmentIntersectsGeoLoop (holes transPolygon ! 0) (bboxesFromGeoPolygon transPolygon ! 1)
     armWest armEast \<and>
   \<not> geoLoopIntersectsPolygon transPolygon (bboxesFromGeoPolygon transPolygon)
       \<lparr>verts = [armWest, armEast]\<rparr>"
proof -
  have "\<not> geoLoopIntersectsPolygon transPolygon (bboxesFromGeoPolygon transPolygon)
       \<lparr>verts = [armWest, armEast]\<rparr>"
    unfolding transPolygon_sel
    by (subst geoLoopIntersectsPolygon_edge_test [OF transPolygon_verts_arms])
      (simp_all add: numVerts_def transPolygon_sel geoLoopIntersectsPolygon_segs.simps
        notchedHole_outer_bbox)
  then show ?thesis
    by (simp add: transPolygon_sel transOuter_armWest transOuter_armEast
        notchedHole_armWest notchedHole_armEast notchedHole_arms_own_bbox)
qed

text \<open>
  C10. For every polygon and every bounding-box set, \<^verbatim>\<open>geoLoopIntersectsPolygon\<close>
  applied to a candidate loop with zero vertices returns false.
\<close>

theorem geoLoopIntersectsPolygon_empty_loop:
  "\<not> geoLoopIntersectsPolygon geoPolygon bboxes \<lparr>verts = []\<rparr>"
  by (simp add: geoLoopIntersectsPolygon_def geoLoopIntersectsPolygon_verts.simps numVerts_def)

subsection \<open>\<^verbatim>\<open>pointInsideGeoLoop\<close>\<close>

text \<open>
  C3. For the unit square with its derived box, \<^verbatim>\<open>pointInside\<close> excludes three of
  the corners and contains only the east/south corner, the one of longitude 1
  and latitude 0, which the claim writes \<open>(1,0)\<close>: its pairs are (longitude,
  latitude). The points on the west and on the north edge are excluded, the
  points on the east and on the south edge are contained. This holds of the
  square of the test suite and of the square with the four pairs of the claim
  read as (longitude, latitude), which list the same corners in the other
  direction.
\<close>

theorem pointInsideGeoLoop_unitSquare_bias:
  "\<forall>sq \<in> {unitSquare, unitSquareLngLat}.
     \<not> pointInsideGeoLoop sq (bboxFromGeoLoop sq) \<lparr>lat = 0, lng = 0\<rparr> \<and>
     \<not> pointInsideGeoLoop sq (bboxFromGeoLoop sq) \<lparr>lat = 1, lng = 0\<rparr> \<and>
     \<not> pointInsideGeoLoop sq (bboxFromGeoLoop sq) \<lparr>lat = 1, lng = 1\<rparr> \<and>
     pointInsideGeoLoop sq (bboxFromGeoLoop sq) \<lparr>lat = 0, lng = 1\<rparr> \<and>
     (0 < t \<and> t < 1 \<longrightarrow>
        \<not> pointInsideGeoLoop sq (bboxFromGeoLoop sq) \<lparr>lat = t, lng = 0\<rparr> \<and>
        \<not> pointInsideGeoLoop sq (bboxFromGeoLoop sq) \<lparr>lat = 1, lng = t\<rparr> \<and>
        pointInsideGeoLoop sq (bboxFromGeoLoop sq) \<lparr>lat = t, lng = 1\<rparr> \<and>
        pointInsideGeoLoop sq (bboxFromGeoLoop sq) \<lparr>lat = 0, lng = t\<rparr>)"
proof (intro ballI)
  fix sq
  assume "sq \<in> {unitSquare, unitSquareLngLat}"
  then consider "sq = unitSquare" | "sq = unitSquareLngLat"
    by blast
  then show "\<not> pointInsideGeoLoop sq (bboxFromGeoLoop sq) \<lparr>lat = 0, lng = 0\<rparr> \<and>
     \<not> pointInsideGeoLoop sq (bboxFromGeoLoop sq) \<lparr>lat = 1, lng = 0\<rparr> \<and>
     \<not> pointInsideGeoLoop sq (bboxFromGeoLoop sq) \<lparr>lat = 1, lng = 1\<rparr> \<and>
     pointInsideGeoLoop sq (bboxFromGeoLoop sq) \<lparr>lat = 0, lng = 1\<rparr> \<and>
     (0 < t \<and> t < 1 \<longrightarrow>
        \<not> pointInsideGeoLoop sq (bboxFromGeoLoop sq) \<lparr>lat = t, lng = 0\<rparr> \<and>
        \<not> pointInsideGeoLoop sq (bboxFromGeoLoop sq) \<lparr>lat = 1, lng = t\<rparr> \<and>
        pointInsideGeoLoop sq (bboxFromGeoLoop sq) \<lparr>lat = t, lng = 1\<rparr> \<and>
        pointInsideGeoLoop sq (bboxFromGeoLoop sq) \<lparr>lat = 0, lng = t\<rparr>)"
  proof cases
    case 1
    show ?thesis
      unfolding 1 using unitSquare_corners unitSquare_edges [of t] by blast
  next
    case 2
    show ?thesis
      unfolding 2 using unitSquareLngLat_corners unitSquareLngLat_edges [of t] by blast
  qed
qed

text \<open>The midpoints of the four edges, the points of \<^verbatim>\<open>pointInsideGeoLoopEdgeCases\<close>.\<close>

theorem pointInsideGeoLoop_unitSquare_bias_witness:
  "\<not> pointInsideGeoLoop unitSquare (bboxFromGeoLoop unitSquare) \<lparr>lat = 1 / 2, lng = 0\<rparr> \<and>
   \<not> pointInsideGeoLoop unitSquare (bboxFromGeoLoop unitSquare) \<lparr>lat = 1, lng = 1 / 2\<rparr> \<and>
   pointInsideGeoLoop unitSquare (bboxFromGeoLoop unitSquare) \<lparr>lat = 1 / 2, lng = 1\<rparr> \<and>
   pointInsideGeoLoop unitSquare (bboxFromGeoLoop unitSquare) \<lparr>lat = 0, lng = 1 / 2\<rparr>"
  using pointInsideGeoLoop_unitSquare_bias [of "1 / 2"] by simp

text \<open>
  C4. For the loop across the antimeridian with the vertices
  \<open>(0.01, -\<pi> + 0.01)\<close>, \<open>(0.01, \<pi> - 0.01)\<close>, \<open>(-0.01, \<pi> - 0.01)\<close>, \<open>(-0.01, -\<pi> + 0.01)\<close>
  and its derived box, \<^verbatim>\<open>pointInside\<close> is true for the point \<open>(0.001, -\<pi> + 0.001)\<close>
  and false for the point \<open>(0.001, -\<pi> + 0.1)\<close>, every coordinate the binary64
  value that the test suite computes for it.
\<close>

theorem pointInsideGeoLoop_transmeridian_fixture:
  "pointInsideGeoLoop transMeridianGeoLoop (bboxFromGeoLoop transMeridianGeoLoop)
     \<lparr>lat = rnd 0.001, lng = dadd (- M_PI) (rnd 0.001)\<rparr> \<and>
   \<not> pointInsideGeoLoop transMeridianGeoLoop (bboxFromGeoLoop transMeridianGeoLoop)
       \<lparr>lat = rnd 0.001, lng = dadd (- M_PI) (rnd 0.1)\<rparr>"
  using transMeridianGeoLoop_points unfolding eastPoint_def eastPointOutside_def
  by (rule conjI)

subsection \<open>\<^verbatim>\<open>pointInsidePolygon\<close>\<close>

text \<open>
  C5. For every polygon, bounding-box set (one box for the outer loop and one
  for each hole) and coordinate, \<^verbatim>\<open>pointInsidePolygon\<close> is true if and only if the
  coordinate is inside the outer loop, by \<^verbatim>\<open>pointInsideGeoLoop\<close> with \<^verbatim>\<open>bboxes[0]\<close>,
  and inside none of the holes, by \<^verbatim>\<open>pointInsideGeoLoop\<close> with \<^verbatim>\<open>bboxes[i + 1]\<close> for
  hole \<open>i\<close>.
\<close>

theorem pointInsidePolygon_iff:
  "length bboxes = numHoles geoPolygon + 1 \<Longrightarrow>
   pointInsidePolygon geoPolygon bboxes coord =
     (pointInsideGeoLoop (geoloop geoPolygon) (bboxes ! 0) coord \<and>
      (\<forall>i<numHoles geoPolygon.
         \<not> pointInsideGeoLoop (holes geoPolygon ! i) (bboxes ! (i + 1)) coord))"
  unfolding pointInsidePolygon_def Let_def pointInsidePolygon_holes_iff
  by auto

theorem pointInsidePolygon_iff_witness:
  "pointInsidePolygon holedSquare (bboxesFromGeoPolygon holedSquare) activePoint \<and>
   \<not> pointInsidePolygon holedSquare (bboxesFromGeoPolygon holedSquare) holePoint"
  using pointInsidePolygon_iff [OF holedSquare_sel(2), of activePoint]
    pointInsidePolygon_iff [OF holedSquare_sel(2), of holePoint]
    holedSquare_activePoint holedSquare_holePoint
  by (simp add: holedSquare_sel(1))

subsection \<open>\<^verbatim>\<open>isClockwiseGeoLoop\<close>\<close>




subsection \<open>\<^verbatim>\<open>bboxFromGeoLoop\<close>\<close>




subsection \<open>\<^verbatim>\<open>segmentIntersectsGeoLoop\<close>\<close>

text \<open>
  C8. \<^verbatim>\<open>segmentIntersects\<close> is false for the empty loop; and for every loop and
  box it is false whenever both end points of the segment lie strictly beyond
  the same bound of the box in their raw coordinates: both latitudes above
  north, both below south, both longitudes above east, or both below west.
  Nothing is corrected for a box that wraps (west greater than east).
\<close>

theorem segmentIntersectsGeoLoop_fast_reject:
  "\<not> segmentIntersectsGeoLoop \<lparr>verts = []\<rparr> bbox p0 p1 \<and>
   ((lat p0 > north bbox \<and> lat p1 > north bbox) \<or>
    (lat p0 < south bbox \<and> lat p1 < south bbox) \<or>
    (lng p0 > east bbox \<and> lng p1 > east bbox) \<or>
    (lng p0 < west bbox \<and> lng p1 < west bbox) \<longrightarrow>
    \<not> segmentIntersectsGeoLoop loop bbox p0 p1)"
  by (auto simp add: segmentIntersectsGeoLoop_def IS_EMPTY_def numVerts_def)

text \<open>The box of \<open>transOuter\<close> wraps and holds \<open>armWest\<close>; the segment from there to
  \<open>northOfOuter\<close> leaves the loop through its north edge, and is rejected because
  both of its longitudes exceed the east bound \<open>-2\<close>.\<close>

theorem segmentIntersectsGeoLoop_fast_reject_witness:
  "bboxIsTransmeridian (bboxFromGeoLoop transOuter) \<and>
   bboxContains (bboxFromGeoLoop transOuter) armWest \<and>
   lng armWest > east (bboxFromGeoLoop transOuter) \<and>
   lng northOfOuter > east (bboxFromGeoLoop transOuter) \<and>
   \<not> segmentIntersectsGeoLoop transOuter (bboxFromGeoLoop transOuter) armWest northOfOuter"
  using segmentIntersectsGeoLoop_fast_reject
    [where bbox = "bboxFromGeoLoop transOuter" and ?p0.0 = armWest and ?p1.0 = northOfOuter
      and loop = transOuter]
  by (simp add: bbox_transOuter bboxIsTransmeridian_def bboxContains_def armWest_def
      northOfOuter_def)

subsection \<open>\<^verbatim>\<open>geoLoopInsidePolygon\<close>\<close>

text \<open>
  C9. \<^verbatim>\<open>geoLoopInsidePolygon\<close> is false for every candidate loop with 0 vertices.
  For a candidate loop with exactly 1 vertex it is true if that vertex passes
  \<^verbatim>\<open>pointInsidePolygon\<close> and false otherwise.
\<close>

theorem geoLoopInsidePolygon_degenerate:
  "\<not> geoLoopInsidePolygon geoPolygon bboxes \<lparr>verts = []\<rparr> \<and>
   (length bboxes = numHoles geoPolygon + 1 \<longrightarrow>
      geoLoopInsidePolygon geoPolygon bboxes \<lparr>verts = [v]\<rparr> =
        pointInsidePolygon geoPolygon bboxes v)"
  by (simp add: geoLoopInsidePolygon_def numVerts_def
      geoLoopInsidePolygon_verts.simps [of _ _ _ 0]
      geoLoopInsidePolygon_verts.simps [of _ _ _ "Suc 0"])

theorem geoLoopInsidePolygon_degenerate_witness:
  "\<not> geoLoopInsidePolygon holedSquare (bboxesFromGeoPolygon holedSquare) \<lparr>verts = []\<rparr> \<and>
   geoLoopInsidePolygon holedSquare (bboxesFromGeoPolygon holedSquare)
     \<lparr>verts = [activePoint]\<rparr> \<and>
   \<not> geoLoopInsidePolygon holedSquare (bboxesFromGeoPolygon holedSquare)
       \<lparr>verts = [holePoint]\<rparr>"
  using geoLoopInsidePolygon_degenerate
    [of holedSquare "bboxesFromGeoPolygon holedSquare" activePoint]
    geoLoopInsidePolygon_degenerate
    [of holedSquare "bboxesFromGeoPolygon holedSquare" holePoint]
  by (simp add: holedSquare_sel(2) pointInsidePolygon_activePoint pointInsidePolygon_holePoint)

end
